theory Spec2Isabelle
  imports Complex_Main "HOL-Library.Word" "HOL-Library.Sublist"
begin

section \<open>The resume analyzer's Flask application (app/main.py)\<close>

text \<open>
  The module under verification is request-handling glue: two routes, the validation of a
  multipart upload, four calls into the services module and the mapping of their outcome to
  an HTTP status and a JSON body. The services module, the response schema and the
  libraries (Flask, werkzeug, time) are not part of the module; what the handler observes
  of them is made explicit below.
\<close>

subsection \<open>Python values the handler observes\<close>

type_synonym bytes = "8 word list"

text \<open>
  An exception instance, as far as the handler looks at it: whether
  \<^verbatim>\<open>except ValueError\<close> catches it (it is an instance of ValueError or of a subclass),
  and the text \<^verbatim>\<open>str(e)\<close> that the f-strings and the JSON detail carry. Every
  exception of the model is an instance of Python's \<^verbatim>\<open>Exception\<close>, the class both
  \<^verbatim>\<open>except Exception\<close> clauses of the handler catch; interpreter-exit signals
  (KeyboardInterrupt, SystemExit), which may arrive between any two instructions, are
  outside the model.
\<close>

record pyexn =
  is_value_error :: bool
  message :: string

text \<open>
  A werkzeug FileStorage of \<^verbatim>\<open>request.files\<close>: the filename sent by the client
  (None when the part carries none) and the outcome of \<^verbatim>\<open>.read()\<close>, which either
  raises or yields the whole content.
\<close>

record file_storage =
  filename :: "string option"
  read :: "pyexn + bytes"

text \<open>Truthiness and f-string rendering of an optional string.\<close>

definition truthy :: "string option \<Rightarrow> bool" where
  "truthy v = (case v of None \<Rightarrow> False | Some s \<Rightarrow> s \<noteq> [])"

definition format_str :: "string option \<Rightarrow> string" where
  "format_str v = (case v of None \<Rightarrow> ''None'' | Some s \<Rightarrow> s)"

subsection \<open>String operations\<close>

text \<open>\<^verbatim>\<open>str.lower\<close> and \<^verbatim>\<open>str.endswith\<close> on ASCII text.\<close>

definition lower_char :: "char \<Rightarrow> char" where
  "lower_char c =
     (case map_of (zip ''ABCDEFGHIJKLMNOPQRSTUVWXYZ'' ''abcdefghijklmnopqrstuvwxyz'') c of
        None \<Rightarrow> c
      | Some d \<Rightarrow> d)"

definition lower :: "string \<Rightarrow> string" where
  "lower s = map lower_char s"

definition endswith :: "string \<Rightarrow> string \<Rightarrow> bool" where
  "endswith s suf \<longleftrightarrow> length suf \<le> length s \<and> drop (length s - length suf) s = suf"

text \<open>
  \<^verbatim>\<open>str.split()\<close> without arguments: the maximal runs of non-whitespace characters.
  Among the ASCII characters Python's str type counts space, TAB, LF, VT, FF, CR and the
  separators 0x1C to 0x1F as whitespace.
\<close>

definition isspace :: "char \<Rightarrow> bool" where
  "isspace c \<longleftrightarrow>
     c \<in> set [CHR 0x20, CHR 0x09, CHR 0x0A, CHR 0x0B, CHR 0x0C, CHR 0x0D,
               CHR 0x1C, CHR 0x1D, CHR 0x1E, CHR 0x1F]"

fun split_from :: "string \<Rightarrow> string \<Rightarrow> string list" where
  "split_from cur [] = (if cur = [] then [] else [cur])"
| "split_from cur (c # cs) =
     (if isspace c then (if cur = [] then split_from [] cs else cur # split_from [] cs)
      else split_from (cur @ [c]) cs)"

definition split :: "string \<Rightarrow> string list" where
  "split s = split_from [] s"

fun join :: "string \<Rightarrow> string list \<Rightarrow> string" where
  "join sep [] = []"
| "join sep [x] = x"
| "join sep (x # y # ys) = x @ sep @ join sep (y # ys)"

definition replace_char :: "char \<Rightarrow> char \<Rightarrow> string \<Rightarrow> string" where
  "replace_char old new s = map (\<lambda>c. if c = old then new else c) s"

definition strip :: "string \<Rightarrow> string \<Rightarrow> string" where
  "strip chars s =
     rev (dropWhile (\<lambda>c. c \<in> set chars) (rev (dropWhile (\<lambda>c. c \<in> set chars) s)))"

subsection \<open>werkzeug.utils.secure\_filename\<close>

definition ascii_ignore :: "string \<Rightarrow> string" where
  "ascii_ignore s = filter (\<lambda>c. \<not> digit7 c) s"

definition filename_ascii_strip :: "string \<Rightarrow> string" where
  "filename_ascii_strip s =
     filter (\<lambda>c. c \<in> set (''ABCDEFGHIJKLMNOPQRSTUVWXYZ'' @ ''abcdefghijklmnopqrstuvwxyz'' @
                            ''0123456789'' @ ''_.-'')) s"

text \<open>
  Modelled from the spec: \<^verbatim>\<open>secure_filename\<close> is imported from werkzeug and its code
  is not part of the module; the spec describes it as sanitizing a filename (path
  components and unsafe characters). The definition follows werkzeug's implementation on a
  POSIX host (\<^verbatim>\<open>os.sep\<close> is the slash, there is no \<^verbatim>\<open>os.path.altsep\<close>, and the
  Windows device-name rule does not apply) for filenames of ASCII characters:
  \<^verbatim>\<open>
  filename = unicodedata.normalize("NFKD", filename)
  filename = filename.encode("ascii", "ignore").decode("ascii")
  for sep in os.sep, os.path.altsep:
      if sep: filename = filename.replace(sep, " ")
  filename = str(_filename_ascii_strip_re.sub("", "_".join(filename.split()))).strip("._")
  \<close>
  where \<^verbatim>\<open>_filename_ascii_strip_re\<close> is \<^verbatim>\<open>[^A-Za-z0-9_.-]\<close>. NFKD normalization is
  the identity on ASCII text; a character outside ASCII is dropped here, where werkzeug
  would first decompose it.
\<close>

definition secure_filename :: "string \<Rightarrow> string" where
  "secure_filename name =
     strip ''._''
       (filename_ascii_strip
          (join ''_'' (split (replace_char (CHR ''/'') (CHR '' '') (ascii_ignore name)))))"

subsection \<open>Collaborators and responses\<close>

text \<open>
  What the module imports from \<^verbatim>\<open>.services\<close> and from \<^verbatim>\<open>time\<close>. The three service
  functions are opaque and may have effects, so each takes the state of the world outside
  the handler and returns the next one together with either the exception it raised or its
  result. \<^verbatim>\<open>time.time()\<close> reads the wall clock of that world, as a real number of
  seconds; the time that passes during a request, and any adjustment of the system clock,
  is part of how the calls change the world. The results of the analysis and similarity
  services are the two values that reach the response body; like any Python value they
  may be \<^verbatim>\<open>None\<close>, and the handler does not look at them before it builds the body.
\<close>

record ('w, 'd, 'a, 's) env =
  initialization_error :: "string option"
  process_pdf_bytes :: "bytes \<Rightarrow> string \<Rightarrow> 'w \<Rightarrow> (pyexn + 'd) \<times> 'w"
  perform_resume_analysis :: "'d \<Rightarrow> 'w \<Rightarrow> (pyexn + 'a option) \<times> 'w"
  calculate_resume_jd_similarity :: "'d \<Rightarrow> 'd \<Rightarrow> 'w \<Rightarrow> (pyexn + 's option) \<times> 'w"
  time_time :: "'w \<Rightarrow> real"

text \<open>
  The log of collaborator invocations, under the names the specification gives them:
  ParsePdf is \<^verbatim>\<open>process_pdf_bytes\<close>, Analyze is \<^verbatim>\<open>perform_resume_analysis\<close> and
  CompareSimilarity is \<^verbatim>\<open>calculate_resume_jd_similarity\<close>. The handler's model appends
  an entry at every call it makes, with the arguments passed.
\<close>

datatype 'd call =
    ParsePdf bytes string
  | Analyze 'd
  | CompareSimilarity 'd 'd

text \<open>
  JSON values of the bodies the module builds. \<open>JAnalysis\<close> and \<open>JSimilarity\<close> stand for
  the serialized results of the analysis and similarity services, which the handler never
  inspects; \<open>JNull\<close> is JSON's \<^verbatim>\<open>null\<close>, the serialization of \<^verbatim>\<open>None\<close>.
\<close>

datatype ('a, 's) json =
    JNull
  | JString string
  | JNumber real
  | JAnalysis 'a
  | JSimilarity 's

text \<open>
  How a view function ends: \<^verbatim>\<open>return jsonify(body), status\<close>, or
  \<^verbatim>\<open>abort(status, description=...)\<close>, which raises the HTTP exception Flask renders
  as a response of that status carrying the description.
\<close>

datatype ('a, 's) response =
    Jsonify "(string \<times> ('a, 's) json) list" nat
  | Abort nat string

fun status_code :: "('a, 's) response \<Rightarrow> nat" where
  "status_code (Jsonify body status) = status"
| "status_code (Abort status description) = status"

text \<open>
  Modelled from the spec: \<^verbatim>\<open>AnalysisAndSimilarityResponse\<close> of \<^verbatim>\<open>app/schemas.py\<close> is
  not part of the module. The spec gives the envelope as the three fields
  \<^verbatim>\<open>resume_analysis\<close>, \<^verbatim>\<open>similarity_results\<close> and \<^verbatim>\<open>processing_time_seconds\<close>;
  \<open>model_dump\<close> is its conversion to the dictionary handed to \<^verbatim>\<open>jsonify\<close>. The spec
  describes no validation by the envelope, so a result that is \<^verbatim>\<open>None\<close> is carried
  through and serialized as \<^verbatim>\<open>null\<close>.
\<close>

record ('a, 's) AnalysisAndSimilarityResponse =
  resume_analysis :: "'a option"
  similarity_results :: "'s option"
  processing_time_seconds :: real

definition model_dump ::
  "('a, 's) AnalysisAndSimilarityResponse \<Rightarrow> (string \<times> ('a, 's) json) list" where
  "model_dump r =
     [(''resume_analysis'',
         case resume_analysis r of None \<Rightarrow> JNull | Some a \<Rightarrow> JAnalysis a),
      (''similarity_results'',
         case similarity_results r of None \<Rightarrow> JNull | Some s \<Rightarrow> JSimilarity s),
      (''processing_time_seconds'', JNumber (processing_time_seconds r))]"

subsection \<open>The routes\<close>

text \<open>
  \<^verbatim>\<open>GET /\<close>. The view takes no argument and reads nothing of the request; the model
  passes the request's headers and body, the world and the call log through it to state
  that they play no role.
\<close>

definition read_root ::
  "(string \<times> string) list \<Rightarrow> bytes \<Rightarrow> 'w \<Rightarrow> ('a, 's) response \<times> 'd call list \<times> 'w" where
  "read_root headers body w =
     (Jsonify [(''status'', JString ''AI Resume Analyzer Flask API is running!'')] 200, [], w)"

text \<open>
  The body of the handler's second \<^verbatim>\<open>try\<close> block: the four service calls, each run in
  the world the previous one left. The first exception ends the block.
\<close>

definition core_processing ::
  "('w, 'd, 'a, 's) env \<Rightarrow> bytes \<Rightarrow> string \<Rightarrow> bytes \<Rightarrow> string \<Rightarrow> 'w
     \<Rightarrow> (pyexn + 'a option \<times> 's option) \<times> 'd call list \<times> 'w" where
  "core_processing env resume_bytes resume_filename jd_bytes jd_filename w0 =
     (case process_pdf_bytes env resume_bytes resume_filename w0 of
        (Inl e, w1) \<Rightarrow> (Inl e, [ParsePdf resume_bytes resume_filename], w1)
      | (Inr resume_docs, w1) \<Rightarrow>
     (case process_pdf_bytes env jd_bytes jd_filename w1 of
        (Inl e, w2) \<Rightarrow>
          (Inl e, [ParsePdf resume_bytes resume_filename, ParsePdf jd_bytes jd_filename], w2)
      | (Inr jd_docs, w2) \<Rightarrow>
     (case perform_resume_analysis env resume_docs w2 of
        (Inl e, w3) \<Rightarrow>
          (Inl e, [ParsePdf resume_bytes resume_filename, ParsePdf jd_bytes jd_filename,
                   Analyze resume_docs], w3)
      | (Inr analysis_result, w3) \<Rightarrow>
     (case calculate_resume_jd_similarity env resume_docs jd_docs w3 of
        (Inl e, w4) \<Rightarrow>
          (Inl e, [ParsePdf resume_bytes resume_filename, ParsePdf jd_bytes jd_filename,
                   Analyze resume_docs, CompareSimilarity resume_docs jd_docs], w4)
      | (Inr similarity_result, w4) \<Rightarrow>
          (Inr (analysis_result, similarity_result),
           [ParsePdf resume_bytes resume_filename, ParsePdf jd_bytes jd_filename,
            Analyze resume_docs, CompareSimilarity resume_docs jd_docs], w4)))))"

text \<open>
  \<^verbatim>\<open>POST /analyze/\<close>. The result is the response, the collaborator calls made, in order,
  and the world after the request. Output printed to the console is not modelled.
\<close>

definition analyze_resume_and_jd_flask ::
  "('w, 'd, 'a, 's) env \<Rightarrow> (string \<rightharpoonup> file_storage) \<Rightarrow> 'w
     \<Rightarrow> ('a, 's) response \<times> 'd call list \<times> 'w" where
  "analyze_resume_and_jd_flask env files w0 =
     (let start_time = time_time env w0 in
      if truthy (initialization_error env) then
        (Abort 503 (''API service unavailable due to initialization failure: '' @
                    format_str (initialization_error env)), [], w0)
      else if files ''resume_file'' = None \<or> files ''jd_file'' = None then
        (Abort 400 ''Missing 'resume_file' or 'jd_file' in the request.'', [], w0)
      else
        let resume_file = the (files ''resume_file'');
            jd_file = the (files ''jd_file'')
        in
        if \<not> truthy (filename resume_file) \<or> \<not> truthy (filename jd_file) then
          (Abort 400 ''Uploaded files must have filenames.'', [], w0)
        else
          let resume_filename = secure_filename (the (filename resume_file));
              jd_filename = secure_filename (the (filename jd_file))
          in
          if \<not> endswith (lower resume_filename) ''.pdf'' \<or>
             \<not> endswith (lower jd_filename) ''.pdf'' then
            (Abort 400 ''Invalid file type. Please upload PDF files only.'', [], w0)
          else
            (case read resume_file of
               Inl e \<Rightarrow>
                 (Abort 400 (''Failed to read file content: '' @ message e @ ''.''), [], w0)
             | Inr resume_bytes \<Rightarrow>
            (case read jd_file of
               Inl e \<Rightarrow>
                 (Abort 400 (''Failed to read file content: '' @ message e @ ''.''), [], w0)
             | Inr jd_bytes \<Rightarrow>
            (case core_processing env resume_bytes resume_filename jd_bytes jd_filename w0 of
               (Inl e, calls, w) \<Rightarrow>
                 if is_value_error e then
                   (Jsonify [(''error'', JString ''Processing Error''),
                             (''detail'', JString (message e))] 422, calls, w)
                 else
                   (Jsonify [(''error'', JString ''Internal Server Error''),
                             (''detail'', JString (message e))] 500, calls, w)
             | (Inr (analysis_result, similarity_result), calls, w) \<Rightarrow>
                 let end_time = time_time env w;
                     processing_time = end_time - start_time;
                     response_data = \<lparr>resume_analysis = analysis_result,
                                      similarity_results = similarity_result,
                                      processing_time_seconds = processing_time\<rparr>
                 in (Jsonify (model_dump response_data) 200, calls, w)))))"

subsection \<open>Example inputs\<close>

text \<open>
  A world that is just the wall clock in whole seconds, and services that take one, two
  and three seconds. Parsing an empty upload raises a ValueError.
\<close>

definition example_env :: "(int, string, string, nat) env" where
  "example_env =
     \<lparr>initialization_error = None,
      process_pdf_bytes = (\<lambda>content name w.
        (if content = []
         then Inl \<lparr>is_value_error = True, message = ''No text extracted from '' @ name\<rparr>
         else Inr (''text of '' @ name), w + 1)),
      perform_resume_analysis = (\<lambda>docs w. (Inr (Some (''analysis of '' @ docs)), w + 2)),
      calculate_resume_jd_similarity =
        (\<lambda>docs docs' w. (Inr (Some (length docs + length docs')), w + 3)),
      time_time = real_of_int\<rparr>"

definition upload :: "string \<Rightarrow> bytes \<Rightarrow> file_storage" where
  "upload name content = \<lparr>filename = Some name, read = Inr content\<rparr>"

definition example_files :: "string \<rightharpoonup> file_storage" where
  "example_files =
     [''resume_file'' \<mapsto> upload ''RESUME.PDF'' [0x25, 0x50, 0x44, 0x46],
      ''jd_file'' \<mapsto> upload ''jd.pdf'' [0x25, 0x50]]"

text \<open>
  Uploads that fail one validation step each, an upload whose second stream cannot be read,
  and environments in which initialization failed, the analysis service crashes, the
  system clock is set back by ten seconds while the analysis runs, or the analysis service
  returns \<^verbatim>\<open>None\<close>.
\<close>

definition blank_resume_files :: "string \<rightharpoonup> file_storage" where
  "blank_resume_files =
     [''resume_file'' \<mapsto> upload ''RESUME.PDF'' [],
      ''jd_file'' \<mapsto> upload ''jd.pdf'' [0x25, 0x50]]"

definition unnamed_resume_files :: "string \<rightharpoonup> file_storage" where
  "unnamed_resume_files =
     [''resume_file'' \<mapsto> upload [] [0x25, 0x50],
      ''jd_file'' \<mapsto> upload ''jd.pdf'' [0x25, 0x50]]"

definition docx_files :: "string \<rightharpoonup> file_storage" where
  "docx_files =
     [''resume_file'' \<mapsto> upload ''RESUME.PDF'' [0x25, 0x50, 0x44, 0x46],
      ''jd_file'' \<mapsto> upload ''resume.docx'' [0x50, 0x4B]]"


definition unreadable_files :: "string \<rightharpoonup> file_storage" where
  "unreadable_files =
     [''resume_file'' \<mapsto> upload ''RESUME.PDF'' [0x25, 0x50, 0x44, 0x46],
      ''jd_file'' \<mapsto>
        \<lparr>filename = Some ''jd.pdf'',
         read = Inl \<lparr>is_value_error = True, message = ''I/O operation on closed file''\<rparr>\<rparr>]"

definition failed_init_env :: "(int, string, string, nat) env" where
  "failed_init_env = example_env\<lparr>initialization_error := Some ''GOOGLE_API_KEY not set''\<rparr>"

definition crashing_env :: "(int, string, string, nat) env" where
  "crashing_env =
     example_env\<lparr>perform_resume_analysis :=
       (\<lambda>docs w. (Inl \<lparr>is_value_error = False, message = ''connection reset''\<rparr>, w + 2))\<rparr>"



section \<open>Properties\<close>

subsection \<open>Facts about the example inputs\<close>

lemma upload_filename: "filename (upload name content) = Some name"
  by (simp add: upload_def)

lemma upload_read: "read (upload name content) = Inr content"
  by (simp add: upload_def)

lemma example_files_resume:
  "example_files ''resume_file'' = Some (upload ''RESUME.PDF'' [0x25, 0x50, 0x44, 0x46])"
  by (simp add: example_files_def)

lemma example_files_jd: "example_files ''jd_file'' = Some (upload ''jd.pdf'' [0x25, 0x50])"
  by (simp add: example_files_def)

lemma example_env_ready: "\<not> truthy (initialization_error example_env)"
  by (simp add: example_env_def truthy_def)

lemma crashing_env_ready: "\<not> truthy (initialization_error crashing_env)"
  by (simp add: crashing_env_def example_env_def truthy_def)

lemma secure_RESUME_PDF: "secure_filename ''RESUME.PDF'' = ''RESUME.PDF''"
  by code_simp

lemma secure_jd_pdf: "secure_filename ''jd.pdf'' = ''jd.pdf''"
  by code_simp

lemma endswith_RESUME_PDF: "endswith (lower (secure_filename ''RESUME.PDF'')) ''.pdf''"
  by code_simp

lemma endswith_jd_pdf: "endswith (lower (secure_filename ''jd.pdf'')) ''.pdf''"
  by code_simp

lemma example_env_parse_resume:
  "process_pdf_bytes example_env [0x25, 0x50, 0x44, 0x46] (secure_filename ''RESUME.PDF'') w
     = (Inr ''text of RESUME.PDF'', w + 1)"
  by (simp add: example_env_def secure_RESUME_PDF)

lemma example_env_parse_jd:
  "process_pdf_bytes example_env [0x25, 0x50] (secure_filename ''jd.pdf'') w
     = (Inr ''text of jd.pdf'', w + 1)"
  by (simp add: example_env_def secure_jd_pdf)

lemma example_env_analysis:
  "perform_resume_analysis example_env ''text of RESUME.PDF'' w
     = (Inr (Some ''analysis of text of RESUME.PDF''), w + 2)"
  by (simp add: example_env_def)

lemma example_env_similarity:
  "calculate_resume_jd_similarity example_env ''text of RESUME.PDF'' ''text of jd.pdf'' w
     = (Inr (Some 32), w + 3)"
  by (simp add: example_env_def)

lemma crashing_env_parse_resume:
  "process_pdf_bytes crashing_env [0x25, 0x50, 0x44, 0x46] (secure_filename ''RESUME.PDF'') w
     = (Inr ''text of RESUME.PDF'', w + 1)"
  by (simp add: crashing_env_def example_env_def secure_RESUME_PDF)

lemma crashing_env_parse_jd:
  "process_pdf_bytes crashing_env [0x25, 0x50] (secure_filename ''jd.pdf'') w
     = (Inr ''text of jd.pdf'', w + 1)"
  by (simp add: crashing_env_def example_env_def secure_jd_pdf)

lemma crashing_env_analysis:
  "perform_resume_analysis crashing_env docs w
     = (Inl \<lparr>is_value_error = False, message = ''connection reset''\<rparr>, w + 2)"
  by (simp add: crashing_env_def)

subsection \<open>Liveness route\<close>

text \<open>
  C8: every GET request to \<^verbatim>\<open>/\<close> is answered with status 200 and the fixed body
  \<^verbatim>\<open>{"status": "AI Resume Analyzer Flask API is running!"}\<close>, whatever headers and body
  the request carries; the view calls no collaborator and leaves the world as it found it.
\<close>

theorem read_root_fixed_response:
  "read_root headers body w =
     (Jsonify [(''status'', JString ''AI Resume Analyzer Flask API is running!'')] 200, [], w)"
  by (simp add: read_root_def)

subsection \<open>Readiness latch\<close>

text \<open>
  C1: when the initialization error captured at import time is a non-empty string, every
  POST to \<^verbatim>\<open>/analyze/\<close> is aborted with 503 and a description that ends with that
  error; no collaborator is called and the world is unchanged, whatever the upload is.
\<close>

theorem initialization_error_yields_503:
  assumes "initialization_error env = Some err" and "err \<noteq> []"
  shows "analyze_resume_and_jd_flask env files w0 =
           (Abort 503 (''API service unavailable due to initialization failure: '' @ err),
            [], w0)"
  using assms by (simp add: analyze_resume_and_jd_flask_def truthy_def format_str_def)

theorem initialization_error_yields_503_witness:
  "initialization_error (example_env\<lparr>initialization_error := Some ''GOOGLE_API_KEY not set''\<rparr>)
     = Some ''GOOGLE_API_KEY not set''
   \<and> ''GOOGLE_API_KEY not set'' \<noteq> []
   \<and> analyze_resume_and_jd_flask
        (example_env\<lparr>initialization_error := Some ''GOOGLE_API_KEY not set''\<rparr>)
        example_files 0 =
      (Abort 503 ''API service unavailable due to initialization failure: GOOGLE_API_KEY not set'',
       [], 0)"
proof -
  let ?env = "example_env\<lparr>initialization_error := Some ''GOOGLE_API_KEY not set''\<rparr>"
  have h1: "initialization_error ?env = Some ''GOOGLE_API_KEY not set''" by simp
  have h2: "''GOOGLE_API_KEY not set'' \<noteq> []" by simp
  show ?thesis
    using h1 h2 initialization_error_yields_503 [OF h1 h2, of example_files 0] by simp
qed

subsection \<open>Request validation\<close>

text \<open>
  C4: with an empty initialization error, a POST to \<^verbatim>\<open>/analyze/\<close> in which the
  multipart field \<^verbatim>\<open>resume_file\<close> or \<^verbatim>\<open>jd_file\<close> (or both) is absent is aborted with
  400; the description is the same in all three cases and contains the names of both
  fields, so each missing field is named; no collaborator is called.
\<close>

theorem missing_field_yields_400:
  assumes "\<not> truthy (initialization_error env)"
    and "files ''resume_file'' = None \<or> files ''jd_file'' = None"
  shows "analyze_resume_and_jd_flask env files w0 =
           (Abort 400 ''Missing 'resume_file' or 'jd_file' in the request.'', [], w0)
         \<and> sublist ''resume_file'' ''Missing 'resume_file' or 'jd_file' in the request.''
         \<and> sublist ''jd_file'' ''Missing 'resume_file' or 'jd_file' in the request.''"
proof -
  have "''Missing 'resume_file' or 'jd_file' in the request.'' =
          (''Missing '' @ [CHR 0x27]) @ ''resume_file'' @
          ([CHR 0x27] @ '' or 'jd_file' in the request.'')"
    by simp
  then have r: "sublist ''resume_file'' ''Missing 'resume_file' or 'jd_file' in the request.''"
    unfolding sublist_def by blast
  have "''Missing 'resume_file' or 'jd_file' in the request.'' =
          (''Missing 'resume_file' or '' @ [CHR 0x27]) @ ''jd_file'' @
          ([CHR 0x27] @ '' in the request.'')"
    by simp
  then have j: "sublist ''jd_file'' ''Missing 'resume_file' or 'jd_file' in the request.''"
    unfolding sublist_def by blast
  from assms have "analyze_resume_and_jd_flask env files w0 =
      (Abort 400 ''Missing 'resume_file' or 'jd_file' in the request.'', [], w0)"
    by (auto simp add: analyze_resume_and_jd_flask_def)
  with r j show ?thesis by simp
qed

theorem missing_field_yields_400_witness:
  "\<not> truthy (initialization_error example_env)
   \<and> [''resume_file'' \<mapsto> upload ''RESUME.PDF'' [0x25, 0x50]] ''jd_file'' = None
   \<and> analyze_resume_and_jd_flask example_env
        [''resume_file'' \<mapsto> upload ''RESUME.PDF'' [0x25, 0x50]] 0 =
       (Abort 400 ''Missing 'resume_file' or 'jd_file' in the request.'', [], 0)"
proof -
  let ?files = "[''resume_file'' \<mapsto> upload ''RESUME.PDF'' [0x25, 0x50]]"
  have h1: "\<not> truthy (initialization_error example_env)"
    by (simp add: example_env_def truthy_def)
  have h2: "?files ''jd_file'' = None"
    by simp
  then have h2': "?files ''resume_file'' = None \<or> ?files ''jd_file'' = None" ..
  from missing_field_yields_400 [OF h1 h2', of 0]
  have "analyze_resume_and_jd_flask example_env ?files 0 =
          (Abort 400 ''Missing 'resume_file' or 'jd_file' in the request.'', [], 0)" ..
  with h1 h2 show ?thesis by blast
qed

lemma not_rejected_by_filename_checks:
  assumes "\<not> truthy (initialization_error env)"
    and "files ''resume_file'' = Some resume_file"
    and "files ''jd_file'' = Some jd_file"
    and "truthy (filename resume_file)" and "truthy (filename jd_file)"
    and "endswith (lower (secure_filename (the (filename resume_file)))) ''.pdf''"
    and "endswith (lower (secure_filename (the (filename jd_file)))) ''.pdf''"
  shows "fst (analyze_resume_and_jd_flask env files w0) \<noteq>
           Abort 400 ''Uploaded files must have filenames.''"
    and "fst (analyze_resume_and_jd_flask env files w0) \<noteq>
           Abort 400 ''Invalid file type. Please upload PDF files only.''"
  using assms
  by (simp_all add: analyze_resume_and_jd_flask_def Let_def split: sum.splits prod.splits)

text \<open>
  C5 (amended): with an empty initialization error and both multipart fields present, a
  file whose filename is empty or absent makes the handler abort with 400; otherwise both
  filenames are sanitized, and unless each sanitized name ends in \<^verbatim>\<open>.pdf\<close>, compared
  in lower case, the handler aborts with 400 and the description
  \<^verbatim>\<open>Invalid file type. Please upload PDF files only.\<close>; when both do, neither of the
  two aborts is the answer. \<^verbatim>\<open>RESUME.PDF\<close> passes the extension check and
  \<^verbatim>\<open>resume.docx\<close> does not. No collaborator is called on either abort.
\<close>

theorem filename_checks:
  assumes "\<not> truthy (initialization_error env)"
    and "files ''resume_file'' = Some resume_file"
    and "files ''jd_file'' = Some jd_file"
  shows
    "(\<not> truthy (filename resume_file) \<or> \<not> truthy (filename jd_file) \<longrightarrow>
        analyze_resume_and_jd_flask env files w0 =
          (Abort 400 ''Uploaded files must have filenames.'', [], w0))
   \<and> (truthy (filename resume_file) \<and> truthy (filename jd_file) \<and>
      (\<not> endswith (lower (secure_filename (the (filename resume_file)))) ''.pdf'' \<or>
       \<not> endswith (lower (secure_filename (the (filename jd_file)))) ''.pdf'') \<longrightarrow>
        analyze_resume_and_jd_flask env files w0 =
          (Abort 400 ''Invalid file type. Please upload PDF files only.'', [], w0))
   \<and> (truthy (filename resume_file) \<and> truthy (filename jd_file) \<and>
      endswith (lower (secure_filename (the (filename resume_file)))) ''.pdf'' \<and>
      endswith (lower (secure_filename (the (filename jd_file)))) ''.pdf'' \<longrightarrow>
        fst (analyze_resume_and_jd_flask env files w0) \<noteq>
          Abort 400 ''Uploaded files must have filenames.'' \<and>
        fst (analyze_resume_and_jd_flask env files w0) \<noteq>
          Abort 400 ''Invalid file type. Please upload PDF files only.'')
   \<and> endswith (lower (secure_filename ''RESUME.PDF'')) ''.pdf''
   \<and> \<not> endswith (lower (secure_filename ''resume.docx'')) ''.pdf''"
proof (intro conjI impI)
  assume "\<not> truthy (filename resume_file) \<or> \<not> truthy (filename jd_file)"
  with assms show "analyze_resume_and_jd_flask env files w0 =
          (Abort 400 ''Uploaded files must have filenames.'', [], w0)"
    by (auto simp add: analyze_resume_and_jd_flask_def Let_def)
next
  assume "truthy (filename resume_file) \<and> truthy (filename jd_file) \<and>
      (\<not> endswith (lower (secure_filename (the (filename resume_file)))) ''.pdf'' \<or>
       \<not> endswith (lower (secure_filename (the (filename jd_file)))) ''.pdf'')"
  with assms show "analyze_resume_and_jd_flask env files w0 =
          (Abort 400 ''Invalid file type. Please upload PDF files only.'', [], w0)"
    by (auto simp add: analyze_resume_and_jd_flask_def Let_def)
next
  assume ok: "truthy (filename resume_file) \<and> truthy (filename jd_file) \<and>
      endswith (lower (secure_filename (the (filename resume_file)))) ''.pdf'' \<and>
      endswith (lower (secure_filename (the (filename jd_file)))) ''.pdf''"
  with assms show "fst (analyze_resume_and_jd_flask env files w0) \<noteq>
          Abort 400 ''Uploaded files must have filenames.''"
    by (simp add: not_rejected_by_filename_checks)
  from ok assms show "fst (analyze_resume_and_jd_flask env files w0) \<noteq>
          Abort 400 ''Invalid file type. Please upload PDF files only.''"
    by (simp add: not_rejected_by_filename_checks)
next
  show "endswith (lower (secure_filename ''RESUME.PDF'')) ''.pdf''"
    by (rule endswith_RESUME_PDF)
next
  show "\<not> endswith (lower (secure_filename ''resume.docx'')) ''.pdf''"
    by code_simp
qed

theorem filename_checks_witness:
  "\<not> truthy (filename (upload [] [0x25, 0x50]))
   \<and> analyze_resume_and_jd_flask example_env unnamed_resume_files 0 =
       (Abort 400 ''Uploaded files must have filenames.'', [], 0)
   \<and> \<not> endswith (lower (secure_filename (the (filename (upload ''resume.docx'' [0x50, 0x4B])))))
          ''.pdf''
   \<and> analyze_resume_and_jd_flask example_env docx_files 0 =
       (Abort 400 ''Invalid file type. Please upload PDF files only.'', [], 0)
   \<and> fst (analyze_resume_and_jd_flask example_env example_files 0) \<noteq>
       Abort 400 ''Invalid file type. Please upload PDF files only.''"
proof -
  have u1: "unnamed_resume_files ''resume_file'' = Some (upload [] [0x25, 0x50])"
    and u2: "unnamed_resume_files ''jd_file'' = Some (upload ''jd.pdf'' [0x25, 0x50])"
    by (simp_all add: unnamed_resume_files_def)
  have d1: "docx_files ''resume_file'' = Some (upload ''RESUME.PDF'' [0x25, 0x50, 0x44, 0x46])"
    and d2: "docx_files ''jd_file'' = Some (upload ''resume.docx'' [0x50, 0x4B])"
    by (simp_all add: docx_files_def)
  have unnamed: "\<not> truthy (filename (upload [] [0x25, 0x50]))"
    by (simp add: upload_def truthy_def)
  have named: "truthy (filename (upload ''RESUME.PDF'' [0x25, 0x50, 0x44, 0x46]))"
      "truthy (filename (upload ''resume.docx'' [0x50, 0x4B]))"
      "truthy (filename (upload ''jd.pdf'' [0x25, 0x50]))"
    by (simp_all add: upload_def truthy_def)
  have docx: "\<not> endswith (lower (secure_filename ''resume.docx'')) ''.pdf''"
    by code_simp
  then have docx': "\<not> endswith (lower (secure_filename
                       (the (filename (upload ''resume.docx'' [0x50, 0x4B]))))) ''.pdf''"
    by (simp add: upload_def)
  have pdfs: "endswith (lower (secure_filename
                 (the (filename (upload ''RESUME.PDF'' [0x25, 0x50, 0x44, 0x46]))))) ''.pdf''"
      "endswith (lower (secure_filename (the (filename (upload ''jd.pdf'' [0x25, 0x50])))))
         ''.pdf''"
    by (simp_all add: upload_def endswith_RESUME_PDF endswith_jd_pdf)
  from filename_checks [OF example_env_ready u1 u2, of 0] unnamed
  have a: "analyze_resume_and_jd_flask example_env unnamed_resume_files 0 =
       (Abort 400 ''Uploaded files must have filenames.'', [], 0)"
    by blast
  from filename_checks [OF example_env_ready d1 d2, of 0] named docx'
  have b: "analyze_resume_and_jd_flask example_env docx_files 0 =
       (Abort 400 ''Invalid file type. Please upload PDF files only.'', [], 0)"
    by blast
  from filename_checks [OF example_env_ready example_files_resume example_files_jd, of 0]
    named pdfs
  have c: "fst (analyze_resume_and_jd_flask example_env example_files 0) \<noteq>
       Abort 400 ''Invalid file type. Please upload PDF files only.''"
    by blast
  from unnamed a docx' b c show ?thesis by blast
qed

text \<open>
  The claim as stated covers every request with both fields present. When initialization
  failed, the readiness check comes first: an upload with an empty filename is answered
  with 503, not 400.
\<close>

theorem empty_filename_503_counterexample:
  "unnamed_resume_files ''resume_file'' = Some (upload [] [0x25, 0x50])
   \<and> unnamed_resume_files ''jd_file'' = Some (upload ''jd.pdf'' [0x25, 0x50])
   \<and> filename (upload [] [0x25, 0x50]) = Some []
   \<and> status_code (fst (analyze_resume_and_jd_flask failed_init_env unnamed_resume_files 0)) = 503"
  by (simp add: unnamed_resume_files_def upload_def failed_init_env_def example_env_def
        analyze_resume_and_jd_flask_def truthy_def)







text \<open>
  C10: on a request that passes the readiness, presence, filename and extension checks,
  an exception raised by reading the resume, or by reading the job description after the
  resume was read, makes the handler abort with 400 and the description
  \<^verbatim>\<open>Failed to read file content: <str(e)>.\<close>; no collaborator is called. This holds
  for every exception, a ValueError included, which the pipeline would map to 422.
\<close>

theorem read_failure_yields_400:
  assumes "\<not> truthy (initialization_error env)"
    and "files ''resume_file'' = Some resume_file"
    and "files ''jd_file'' = Some jd_file"
    and "filename resume_file = Some resume_name" and "resume_name \<noteq> []"
    and "filename jd_file = Some jd_name" and "jd_name \<noteq> []"
    and "endswith (lower (secure_filename resume_name)) ''.pdf''"
    and "endswith (lower (secure_filename jd_name)) ''.pdf''"
    and "read resume_file = Inl e \<or> (read resume_file = Inr rb \<and> read jd_file = Inl e)"
  shows "analyze_resume_and_jd_flask env files w0 =
           (Abort 400 (''Failed to read file content: '' @ message e @ ''.''), [], w0)"
  using assms
  by (auto simp add: analyze_resume_and_jd_flask_def truthy_def Let_def)

theorem read_failure_yields_400_witness:
  "read \<lparr>filename = Some ''jd.pdf'',
         read = Inl \<lparr>is_value_error = True, message = ''I/O operation on closed file''\<rparr>\<rparr>
     = Inl \<lparr>is_value_error = True, message = ''I/O operation on closed file''\<rparr>
   \<and> analyze_resume_and_jd_flask example_env unreadable_files 100 =
       (Abort 400 ''Failed to read file content: I/O operation on closed file.'', [], 100)"
proof -
  let ?e = "\<lparr>is_value_error = True, message = ''I/O operation on closed file''\<rparr>"
  let ?jd = "\<lparr>filename = Some ''jd.pdf'', read = Inl ?e\<rparr>"
  have ne: "''RESUME.PDF'' \<noteq> []" "''jd.pdf'' \<noteq> []" by simp_all
  have f1: "unreadable_files ''resume_file'' = Some (upload ''RESUME.PDF'' [0x25, 0x50, 0x44, 0x46])"
    and f2: "unreadable_files ''jd_file'' = Some ?jd"
    by (simp_all add: unreadable_files_def)
  have n2: "filename ?jd = Some ''jd.pdf''" by simp
  have rd: "read ?jd = Inl ?e" by simp
  have fails: "read (upload ''RESUME.PDF'' [0x25, 0x50, 0x44, 0x46]) = Inl ?e
     \<or> (read (upload ''RESUME.PDF'' [0x25, 0x50, 0x44, 0x46]) = Inr [0x25, 0x50, 0x44, 0x46]
        \<and> read ?jd = Inl ?e)"
    by (simp add: upload_def)
  have "analyze_resume_and_jd_flask example_env unreadable_files 100 =
       (Abort 400 (''Failed to read file content: '' @ message ?e @ ''.''), [], 100)"
    by (rule read_failure_yields_400
          [OF example_env_ready f1 f2 upload_filename ne(1) n2 ne(2)
              endswith_RESUME_PDF endswith_jd_pdf fails])
  with rd show ?thesis by simp
qed

subsection \<open>The pipeline and its error mapping\<close>

text \<open>
  Once the five validation steps have passed, the handler's answer is decided by the
  outcome of the four service calls alone.
\<close>

lemma analyze_after_validation:
  assumes "\<not> truthy (initialization_error env)"
    and "files ''resume_file'' = Some resume_file"
    and "files ''jd_file'' = Some jd_file"
    and "filename resume_file = Some resume_name" and "resume_name \<noteq> []"
    and "filename jd_file = Some jd_name" and "jd_name \<noteq> []"
    and "endswith (lower (secure_filename resume_name)) ''.pdf''"
    and "endswith (lower (secure_filename jd_name)) ''.pdf''"
    and "read resume_file = Inr resume_bytes"
    and "read jd_file = Inr jd_bytes"
  shows "analyze_resume_and_jd_flask env files w0 =
     (case core_processing env resume_bytes (secure_filename resume_name)
             jd_bytes (secure_filename jd_name) w0 of
        (Inl e, calls, w) \<Rightarrow>
          if is_value_error e then
            (Jsonify [(''error'', JString ''Processing Error''),
                      (''detail'', JString (message e))] 422, calls, w)
          else
            (Jsonify [(''error'', JString ''Internal Server Error''),
                      (''detail'', JString (message e))] 500, calls, w)
      | (Inr (analysis_result, similarity_result), calls, w) \<Rightarrow>
          (Jsonify [(''resume_analysis'',
                       case analysis_result of None \<Rightarrow> JNull | Some a \<Rightarrow> JAnalysis a),
                    (''similarity_results'',
                       case similarity_result of None \<Rightarrow> JNull | Some s \<Rightarrow> JSimilarity s),
                    (''processing_time_seconds'', JNumber (time_time env w - time_time env w0))]
             200, calls, w))"
  using assms
  by (simp add: analyze_resume_and_jd_flask_def truthy_def model_dump_def Let_def
           split: prod.splits sum.splits)

lemma core_processing_first_parse_raises:
  assumes "process_pdf_bytes env rb rn w0 = (Inl e, w1)"
  shows "core_processing env rb rn jb jn w0 = (Inl e, [ParsePdf rb rn], w1)"
  using assms by (simp add: core_processing_def)

lemma core_processing_second_parse_raises:
  assumes "process_pdf_bytes env rb rn w0 = (Inr rd, w1)"
    and "process_pdf_bytes env jb jn w1 = (Inl e, w2)"
  shows "core_processing env rb rn jb jn w0 = (Inl e, [ParsePdf rb rn, ParsePdf jb jn], w2)"
  using assms by (simp add: core_processing_def)

lemma core_processing_analysis_raises:
  assumes "process_pdf_bytes env rb rn w0 = (Inr rd, w1)"
    and "process_pdf_bytes env jb jn w1 = (Inr jd, w2)"
    and "perform_resume_analysis env rd w2 = (Inl e, w3)"
  shows "core_processing env rb rn jb jn w0 =
           (Inl e, [ParsePdf rb rn, ParsePdf jb jn, Analyze rd], w3)"
  using assms by (simp add: core_processing_def)

lemma core_processing_similarity_raises:
  assumes "process_pdf_bytes env rb rn w0 = (Inr rd, w1)"
    and "process_pdf_bytes env jb jn w1 = (Inr jd, w2)"
    and "perform_resume_analysis env rd w2 = (Inr a, w3)"
    and "calculate_resume_jd_similarity env rd jd w3 = (Inl e, w4)"
  shows "core_processing env rb rn jb jn w0 =
           (Inl e, [ParsePdf rb rn, ParsePdf jb jn, Analyze rd, CompareSimilarity rd jd], w4)"
  using assms by (simp add: core_processing_def)

lemma core_processing_succeeds:
  assumes "process_pdf_bytes env rb rn w0 = (Inr rd, w1)"
    and "process_pdf_bytes env jb jn w1 = (Inr jd, w2)"
    and "perform_resume_analysis env rd w2 = (Inr a, w3)"
    and "calculate_resume_jd_similarity env rd jd w3 = (Inr s, w4)"
  shows "core_processing env rb rn jb jn w0 =
           (Inr (a, s), [ParsePdf rb rn, ParsePdf jb jn, Analyze rd, CompareSimilarity rd jd], w4)"
  using assms by (simp add: core_processing_def)

lemma core_processing_raises:
  assumes "process_pdf_bytes env rb rn w0 = (Inl e, w1)
     \<or> (process_pdf_bytes env rb rn w0 = (Inr rd, w1)
        \<and> process_pdf_bytes env jb jn w1 = (Inl e, w2))
     \<or> (process_pdf_bytes env rb rn w0 = (Inr rd, w1)
        \<and> process_pdf_bytes env jb jn w1 = (Inr jd, w2)
        \<and> perform_resume_analysis env rd w2 = (Inl e, w3))
     \<or> (process_pdf_bytes env rb rn w0 = (Inr rd, w1)
        \<and> process_pdf_bytes env jb jn w1 = (Inr jd, w2)
        \<and> perform_resume_analysis env rd w2 = (Inr a, w3)
        \<and> calculate_resume_jd_similarity env rd jd w3 = (Inl e, w4))"
  shows "\<exists>calls w. core_processing env rb rn jb jn w0 = (Inl e, calls, w)"
  using assms
  by (auto simp add: core_processing_first_parse_raises core_processing_second_parse_raises
        core_processing_analysis_raises core_processing_similarity_raises)

text \<open>
  C2: on a request that passes validation, when one of the four pipeline calls (each run
  only if the ones before it returned) raises an exception that \<^verbatim>\<open>except ValueError\<close>
  catches, the response is 422 with the body
  \<^verbatim>\<open>{"error": "Processing Error", "detail": str(e)}\<close>.
\<close>

theorem processing_error_yields_422:
  assumes "\<not> truthy (initialization_error env)"
    and "files ''resume_file'' = Some resume_file"
    and "files ''jd_file'' = Some jd_file"
    and "filename resume_file = Some resume_name" and "resume_name \<noteq> []"
    and "filename jd_file = Some jd_name" and "jd_name \<noteq> []"
    and "endswith (lower (secure_filename resume_name)) ''.pdf''"
    and "endswith (lower (secure_filename jd_name)) ''.pdf''"
    and "read resume_file = Inr rb"
    and "read jd_file = Inr jb"
    and raised:
      "process_pdf_bytes env rb (secure_filename resume_name) w0 = (Inl e, w1)
       \<or> (process_pdf_bytes env rb (secure_filename resume_name) w0 = (Inr rd, w1)
          \<and> process_pdf_bytes env jb (secure_filename jd_name) w1 = (Inl e, w2))
       \<or> (process_pdf_bytes env rb (secure_filename resume_name) w0 = (Inr rd, w1)
          \<and> process_pdf_bytes env jb (secure_filename jd_name) w1 = (Inr jd, w2)
          \<and> perform_resume_analysis env rd w2 = (Inl e, w3))
       \<or> (process_pdf_bytes env rb (secure_filename resume_name) w0 = (Inr rd, w1)
          \<and> process_pdf_bytes env jb (secure_filename jd_name) w1 = (Inr jd, w2)
          \<and> perform_resume_analysis env rd w2 = (Inr a, w3)
          \<and> calculate_resume_jd_similarity env rd jd w3 = (Inl e, w4))"
    and "is_value_error e"
  shows "fst (analyze_resume_and_jd_flask env files w0) =
           Jsonify [(''error'', JString ''Processing Error''),
                    (''detail'', JString (message e))] 422"
proof -
  from core_processing_raises [OF raised] obtain calls w
    where "core_processing env rb (secure_filename resume_name) jb (secure_filename jd_name) w0
             = (Inl e, calls, w)"
    by blast
  with assms(1-11) \<open>is_value_error e\<close> show ?thesis
    by (simp add: analyze_after_validation)
qed

theorem processing_error_yields_422_witness:
  "process_pdf_bytes example_env [] (secure_filename ''RESUME.PDF'') 0 =
     (Inl \<lparr>is_value_error = True, message = ''No text extracted from RESUME.PDF''\<rparr>, 1)
   \<and> fst (analyze_resume_and_jd_flask example_env blank_resume_files 0) =
       Jsonify [(''error'', JString ''Processing Error''),
                (''detail'', JString ''No text extracted from RESUME.PDF'')] 422"
proof -
  let ?e = "\<lparr>is_value_error = True, message = ''No text extracted from RESUME.PDF''\<rparr>"
  have h2: "blank_resume_files ''resume_file'' = Some (upload ''RESUME.PDF'' [])"
    and h3: "blank_resume_files ''jd_file'' = Some (upload ''jd.pdf'' [0x25, 0x50])"
    by (simp_all add: blank_resume_files_def)
  have h4: "filename (upload ''RESUME.PDF'' []) = Some ''RESUME.PDF''"
    and h5: "''RESUME.PDF'' \<noteq> []"
    and h6: "filename (upload ''jd.pdf'' [0x25, 0x50]) = Some ''jd.pdf''"
    and h7: "''jd.pdf'' \<noteq> []"
    and h10: "read (upload ''RESUME.PDF'' []) = Inr []"
    and h11: "read (upload ''jd.pdf'' [0x25, 0x50]) = Inr [0x25, 0x50]"
    by (simp_all add: upload_def)
  have raise: "process_pdf_bytes example_env [] (secure_filename ''RESUME.PDF'') 0 = (Inl ?e, 1)"
    by (simp add: example_env_def secure_RESUME_PDF)
  then have h12:
    "process_pdf_bytes example_env [] (secure_filename ''RESUME.PDF'') 0 = (Inl ?e, 1)
     \<or> (process_pdf_bytes example_env [] (secure_filename ''RESUME.PDF'') 0 = (Inr [], 1)
        \<and> process_pdf_bytes example_env [0x25, 0x50] (secure_filename ''jd.pdf'') 1 = (Inl ?e, 0))
     \<or> (process_pdf_bytes example_env [] (secure_filename ''RESUME.PDF'') 0 = (Inr [], 1)
        \<and> process_pdf_bytes example_env [0x25, 0x50] (secure_filename ''jd.pdf'') 1 = (Inr [], 0)
        \<and> perform_resume_analysis example_env [] 0 = (Inl ?e, 0))
     \<or> (process_pdf_bytes example_env [] (secure_filename ''RESUME.PDF'') 0 = (Inr [], 1)
        \<and> process_pdf_bytes example_env [0x25, 0x50] (secure_filename ''jd.pdf'') 1 = (Inr [], 0)
        \<and> perform_resume_analysis example_env [] 0 = (Inr None, 0)
        \<and> calculate_resume_jd_similarity example_env [] [] 0 = (Inl ?e, 0))" ..
  have h13: "is_value_error ?e" by simp
  have "fst (analyze_resume_and_jd_flask example_env blank_resume_files 0) =
          Jsonify [(''error'', JString ''Processing Error''),
                   (''detail'', JString (message ?e))] 422"
    by (rule processing_error_yields_422
          [OF example_env_ready h2 h3 h4 h5 h6 h7 endswith_RESUME_PDF endswith_jd_pdf
              h10 h11 h12 h13])
  with raise show ?thesis by simp
qed

text \<open>
  C3: on a request that passes validation, when one of the four pipeline calls raises an
  exception that is not a ValueError, the response is 500 with the body
  \<^verbatim>\<open>{"error": "Internal Server Error", "detail": str(e)}\<close>.
\<close>

theorem unexpected_error_yields_500:
  assumes "\<not> truthy (initialization_error env)"
    and "files ''resume_file'' = Some resume_file"
    and "files ''jd_file'' = Some jd_file"
    and "filename resume_file = Some resume_name" and "resume_name \<noteq> []"
    and "filename jd_file = Some jd_name" and "jd_name \<noteq> []"
    and "endswith (lower (secure_filename resume_name)) ''.pdf''"
    and "endswith (lower (secure_filename jd_name)) ''.pdf''"
    and "read resume_file = Inr rb"
    and "read jd_file = Inr jb"
    and raised:
      "process_pdf_bytes env rb (secure_filename resume_name) w0 = (Inl e, w1)
       \<or> (process_pdf_bytes env rb (secure_filename resume_name) w0 = (Inr rd, w1)
          \<and> process_pdf_bytes env jb (secure_filename jd_name) w1 = (Inl e, w2))
       \<or> (process_pdf_bytes env rb (secure_filename resume_name) w0 = (Inr rd, w1)
          \<and> process_pdf_bytes env jb (secure_filename jd_name) w1 = (Inr jd, w2)
          \<and> perform_resume_analysis env rd w2 = (Inl e, w3))
       \<or> (process_pdf_bytes env rb (secure_filename resume_name) w0 = (Inr rd, w1)
          \<and> process_pdf_bytes env jb (secure_filename jd_name) w1 = (Inr jd, w2)
          \<and> perform_resume_analysis env rd w2 = (Inr a, w3)
          \<and> calculate_resume_jd_similarity env rd jd w3 = (Inl e, w4))"
    and "\<not> is_value_error e"
  shows "fst (analyze_resume_and_jd_flask env files w0) =
           Jsonify [(''error'', JString ''Internal Server Error''),
                    (''detail'', JString (message e))] 500"
proof -
  from core_processing_raises [OF raised] obtain calls w
    where "core_processing env rb (secure_filename resume_name) jb (secure_filename jd_name) w0
             = (Inl e, calls, w)"
    by blast
  with assms(1-11) \<open>\<not> is_value_error e\<close> show ?thesis
    by (simp add: analyze_after_validation)
qed

theorem unexpected_error_yields_500_witness:
  "perform_resume_analysis crashing_env ''text of RESUME.PDF'' 2 =
     (Inl \<lparr>is_value_error = False, message = ''connection reset''\<rparr>, 4)
   \<and> fst (analyze_resume_and_jd_flask crashing_env example_files 0) =
       Jsonify [(''error'', JString ''Internal Server Error''),
                (''detail'', JString ''connection reset'')] 500"
proof -
  let ?e = "\<lparr>is_value_error = False, message = ''connection reset''\<rparr>"
  have h1: "\<not> truthy (initialization_error crashing_env)"
    by (simp add: crashing_env_def example_env_def truthy_def)
  have h2: "example_files ''resume_file'' = Some (upload ''RESUME.PDF'' [0x25, 0x50, 0x44, 0x46])"
    and h3: "example_files ''jd_file'' = Some (upload ''jd.pdf'' [0x25, 0x50])"
    by (simp_all add: example_files_def)
  have h4: "filename (upload ''RESUME.PDF'' [0x25, 0x50, 0x44, 0x46]) = Some ''RESUME.PDF''"
    and h5: "''RESUME.PDF'' \<noteq> []"
    and h6: "filename (upload ''jd.pdf'' [0x25, 0x50]) = Some ''jd.pdf''"
    and h7: "''jd.pdf'' \<noteq> []"
    and h10: "read (upload ''RESUME.PDF'' [0x25, 0x50, 0x44, 0x46]) = Inr [0x25, 0x50, 0x44, 0x46]"
    and h11: "read (upload ''jd.pdf'' [0x25, 0x50]) = Inr [0x25, 0x50]"
    by (simp_all add: upload_def)
  have p1: "process_pdf_bytes crashing_env [0x25, 0x50, 0x44, 0x46] (secure_filename ''RESUME.PDF'') 0
              = (Inr ''text of RESUME.PDF'', 1)"
    and p2: "process_pdf_bytes crashing_env [0x25, 0x50] (secure_filename ''jd.pdf'') 1
              = (Inr ''text of jd.pdf'', 2)"
    and p3: "perform_resume_analysis crashing_env ''text of RESUME.PDF'' 2 = (Inl ?e, 4)"
    by (simp_all add: crashing_env_def example_env_def secure_RESUME_PDF secure_jd_pdf)
  from p1 p2 p3 have h12:
    "process_pdf_bytes crashing_env [0x25, 0x50, 0x44, 0x46] (secure_filename ''RESUME.PDF'') 0
       = (Inl ?e, 1)
     \<or> (process_pdf_bytes crashing_env [0x25, 0x50, 0x44, 0x46] (secure_filename ''RESUME.PDF'') 0
          = (Inr ''text of RESUME.PDF'', 1)
        \<and> process_pdf_bytes crashing_env [0x25, 0x50] (secure_filename ''jd.pdf'') 1 = (Inl ?e, 2))
     \<or> (process_pdf_bytes crashing_env [0x25, 0x50, 0x44, 0x46] (secure_filename ''RESUME.PDF'') 0
          = (Inr ''text of RESUME.PDF'', 1)
        \<and> process_pdf_bytes crashing_env [0x25, 0x50] (secure_filename ''jd.pdf'') 1
          = (Inr ''text of jd.pdf'', 2)
        \<and> perform_resume_analysis crashing_env ''text of RESUME.PDF'' 2 = (Inl ?e, 4))
     \<or> (process_pdf_bytes crashing_env [0x25, 0x50, 0x44, 0x46] (secure_filename ''RESUME.PDF'') 0
          = (Inr ''text of RESUME.PDF'', 1)
        \<and> process_pdf_bytes crashing_env [0x25, 0x50] (secure_filename ''jd.pdf'') 1
          = (Inr ''text of jd.pdf'', 2)
        \<and> perform_resume_analysis crashing_env ''text of RESUME.PDF'' 2 = (Inr None, 4)
        \<and> calculate_resume_jd_similarity crashing_env ''text of RESUME.PDF'' ''text of jd.pdf'' 4
          = (Inl ?e, 0))"
    by blast
  have h13: "\<not> is_value_error ?e" by simp
  have "fst (analyze_resume_and_jd_flask crashing_env example_files 0) =
          Jsonify [(''error'', JString ''Internal Server Error''),
                   (''detail'', JString (message ?e))] 500"
    by (rule unexpected_error_yields_500
          [OF h1 h2 h3 h4 h5 h6 h7 endswith_RESUME_PDF endswith_jd_pdf h10 h11 h12 h13])
  with p3 show ?thesis by simp
qed

text \<open>
  C6: on a request that passes validation the handler calls ParsePdf on the resume bytes
  and the sanitized resume filename, then ParsePdf on the job description bytes and its
  sanitized filename, then Analyze on the parsed resume, then CompareSimilarity on the two
  parsed documents, each in the world the previous call left. The first call that raises
  ends the request: the calls made are exactly those up to and including it, and the body
  of the response holds the fields \<^verbatim>\<open>error\<close> and \<^verbatim>\<open>detail\<close> only, with no result of
  an earlier step. When none raises, the four calls are made in that order.
\<close>

theorem pipeline_strict_sequence:
  assumes "\<not> truthy (initialization_error env)"
    and "files ''resume_file'' = Some resume_file"
    and "files ''jd_file'' = Some jd_file"
    and "filename resume_file = Some resume_name" and "resume_name \<noteq> []"
    and "filename jd_file = Some jd_name" and "jd_name \<noteq> []"
    and "endswith (lower (secure_filename resume_name)) ''.pdf''"
    and "endswith (lower (secure_filename jd_name)) ''.pdf''"
    and "read resume_file = Inr rb"
    and "read jd_file = Inr jb"
  shows
    "(\<forall>e w1.
        process_pdf_bytes env rb (secure_filename resume_name) w0 = (Inl e, w1) \<longrightarrow>
        (\<exists>category status.
           analyze_resume_and_jd_flask env files w0 =
             (Jsonify [(''error'', JString category), (''detail'', JString (message e))] status,
              [ParsePdf rb (secure_filename resume_name)], w1)))
   \<and> (\<forall>rd w1 e w2.
        process_pdf_bytes env rb (secure_filename resume_name) w0 = (Inr rd, w1) \<and>
        process_pdf_bytes env jb (secure_filename jd_name) w1 = (Inl e, w2) \<longrightarrow>
        (\<exists>category status.
           analyze_resume_and_jd_flask env files w0 =
             (Jsonify [(''error'', JString category), (''detail'', JString (message e))] status,
              [ParsePdf rb (secure_filename resume_name), ParsePdf jb (secure_filename jd_name)],
              w2)))
   \<and> (\<forall>rd w1 jd w2 e w3.
        process_pdf_bytes env rb (secure_filename resume_name) w0 = (Inr rd, w1) \<and>
        process_pdf_bytes env jb (secure_filename jd_name) w1 = (Inr jd, w2) \<and>
        perform_resume_analysis env rd w2 = (Inl e, w3) \<longrightarrow>
        (\<exists>category status.
           analyze_resume_and_jd_flask env files w0 =
             (Jsonify [(''error'', JString category), (''detail'', JString (message e))] status,
              [ParsePdf rb (secure_filename resume_name), ParsePdf jb (secure_filename jd_name),
               Analyze rd],
              w3)))
   \<and> (\<forall>rd w1 jd w2 a w3 e w4.
        process_pdf_bytes env rb (secure_filename resume_name) w0 = (Inr rd, w1) \<and>
        process_pdf_bytes env jb (secure_filename jd_name) w1 = (Inr jd, w2) \<and>
        perform_resume_analysis env rd w2 = (Inr a, w3) \<and>
        calculate_resume_jd_similarity env rd jd w3 = (Inl e, w4) \<longrightarrow>
        (\<exists>category status.
           analyze_resume_and_jd_flask env files w0 =
             (Jsonify [(''error'', JString category), (''detail'', JString (message e))] status,
              [ParsePdf rb (secure_filename resume_name), ParsePdf jb (secure_filename jd_name),
               Analyze rd, CompareSimilarity rd jd],
              w4)))
   \<and> (\<forall>rd w1 jd w2 a w3 s w4.
        process_pdf_bytes env rb (secure_filename resume_name) w0 = (Inr rd, w1) \<and>
        process_pdf_bytes env jb (secure_filename jd_name) w1 = (Inr jd, w2) \<and>
        perform_resume_analysis env rd w2 = (Inr a, w3) \<and>
        calculate_resume_jd_similarity env rd jd w3 = (Inr s, w4) \<longrightarrow>
        snd (analyze_resume_and_jd_flask env files w0) =
          ([ParsePdf rb (secure_filename resume_name), ParsePdf jb (secure_filename jd_name),
            Analyze rd, CompareSimilarity rd jd],
           w4))"
proof (intro conjI allI impI)
  fix e w1
  assume "process_pdf_bytes env rb (secure_filename resume_name) w0 = (Inl e, w1)"
  then show "\<exists>category status.
           analyze_resume_and_jd_flask env files w0 =
             (Jsonify [(''error'', JString category), (''detail'', JString (message e))] status,
              [ParsePdf rb (secure_filename resume_name)], w1)"
    using assms
    by (simp add: analyze_after_validation core_processing_first_parse_raises)
next
  fix rd w1 e w2
  assume "process_pdf_bytes env rb (secure_filename resume_name) w0 = (Inr rd, w1) \<and>
        process_pdf_bytes env jb (secure_filename jd_name) w1 = (Inl e, w2)"
  then show "\<exists>category status.
           analyze_resume_and_jd_flask env files w0 =
             (Jsonify [(''error'', JString category), (''detail'', JString (message e))] status,
              [ParsePdf rb (secure_filename resume_name), ParsePdf jb (secure_filename jd_name)],
              w2)"
    using assms
    by (simp add: analyze_after_validation core_processing_second_parse_raises)
next
  fix rd w1 jd w2 e w3
  assume "process_pdf_bytes env rb (secure_filename resume_name) w0 = (Inr rd, w1) \<and>
        process_pdf_bytes env jb (secure_filename jd_name) w1 = (Inr jd, w2) \<and>
        perform_resume_analysis env rd w2 = (Inl e, w3)"
  then show "\<exists>category status.
           analyze_resume_and_jd_flask env files w0 =
             (Jsonify [(''error'', JString category), (''detail'', JString (message e))] status,
              [ParsePdf rb (secure_filename resume_name), ParsePdf jb (secure_filename jd_name),
               Analyze rd],
              w3)"
    using assms
    by (simp add: analyze_after_validation core_processing_analysis_raises)
next
  fix rd w1 jd w2 a w3 e w4
  assume "process_pdf_bytes env rb (secure_filename resume_name) w0 = (Inr rd, w1) \<and>
        process_pdf_bytes env jb (secure_filename jd_name) w1 = (Inr jd, w2) \<and>
        perform_resume_analysis env rd w2 = (Inr a, w3) \<and>
        calculate_resume_jd_similarity env rd jd w3 = (Inl e, w4)"
  then show "\<exists>category status.
           analyze_resume_and_jd_flask env files w0 =
             (Jsonify [(''error'', JString category), (''detail'', JString (message e))] status,
              [ParsePdf rb (secure_filename resume_name), ParsePdf jb (secure_filename jd_name),
               Analyze rd, CompareSimilarity rd jd],
              w4)"
    using assms
    by (simp add: analyze_after_validation core_processing_similarity_raises)
next
  fix rd w1 jd w2 a w3 s w4
  assume "process_pdf_bytes env rb (secure_filename resume_name) w0 = (Inr rd, w1) \<and>
        process_pdf_bytes env jb (secure_filename jd_name) w1 = (Inr jd, w2) \<and>
        perform_resume_analysis env rd w2 = (Inr a, w3) \<and>
        calculate_resume_jd_similarity env rd jd w3 = (Inr s, w4)"
  then show "snd (analyze_resume_and_jd_flask env files w0) =
          ([ParsePdf rb (secure_filename resume_name), ParsePdf jb (secure_filename jd_name),
            Analyze rd, CompareSimilarity rd jd],
           w4)"
    using assms
    by (simp add: analyze_after_validation core_processing_succeeds)
qed

theorem pipeline_strict_sequence_witness:
  "snd (analyze_resume_and_jd_flask crashing_env example_files 0) =
     ([ParsePdf [0x25, 0x50, 0x44, 0x46] ''RESUME.PDF'', ParsePdf [0x25, 0x50] ''jd.pdf'',
       Analyze ''text of RESUME.PDF''], 4)
   \<and> snd (analyze_resume_and_jd_flask example_env example_files 0) =
     ([ParsePdf [0x25, 0x50, 0x44, 0x46] ''RESUME.PDF'', ParsePdf [0x25, 0x50] ''jd.pdf'',
       Analyze ''text of RESUME.PDF'',
       CompareSimilarity ''text of RESUME.PDF'' ''text of jd.pdf''], 7)"
proof -
  have ne: "''RESUME.PDF'' \<noteq> []" "''jd.pdf'' \<noteq> []" by simp_all
  note crash = pipeline_strict_sequence
    [where env = crashing_env and files = example_files and ?w0.0 = 0,
     OF crashing_env_ready example_files_resume example_files_jd
        upload_filename ne(1) upload_filename ne(2)
        endswith_RESUME_PDF endswith_jd_pdf upload_read upload_read]
  have c1: "process_pdf_bytes crashing_env [0x25, 0x50, 0x44, 0x46]
              (secure_filename ''RESUME.PDF'') 0 = (Inr ''text of RESUME.PDF'', 1)"
    using crashing_env_parse_resume [of 0] by simp
  have c2: "process_pdf_bytes crashing_env [0x25, 0x50] (secure_filename ''jd.pdf'') 1
              = (Inr ''text of jd.pdf'', 2)"
    using crashing_env_parse_jd [of 1] by simp
  have c3: "perform_resume_analysis crashing_env ''text of RESUME.PDF'' 2
              = (Inl \<lparr>is_value_error = False, message = ''connection reset''\<rparr>, 4)"
    using crashing_env_analysis [of "''text of RESUME.PDF''" 2] by simp
  note third = crash [THEN conjunct2, THEN conjunct2, THEN conjunct1, rule_format,
                      OF conjI [OF c1 conjI [OF c2 c3]]]
  from third have first: "snd (analyze_resume_and_jd_flask crashing_env example_files 0) =
     ([ParsePdf [0x25, 0x50, 0x44, 0x46] ''RESUME.PDF'', ParsePdf [0x25, 0x50] ''jd.pdf'',
       Analyze ''text of RESUME.PDF''], 4)"
    by (auto simp add: secure_RESUME_PDF secure_jd_pdf)
  note ok = pipeline_strict_sequence
    [where env = example_env and files = example_files and ?w0.0 = 0,
     OF example_env_ready example_files_resume example_files_jd
        upload_filename ne(1) upload_filename ne(2)
        endswith_RESUME_PDF endswith_jd_pdf upload_read upload_read]
  have e1: "process_pdf_bytes example_env [0x25, 0x50, 0x44, 0x46]
              (secure_filename ''RESUME.PDF'') 0 = (Inr ''text of RESUME.PDF'', 1)"
    using example_env_parse_resume [of 0] by simp
  have e2: "process_pdf_bytes example_env [0x25, 0x50] (secure_filename ''jd.pdf'') 1
              = (Inr ''text of jd.pdf'', 2)"
    using example_env_parse_jd [of 1] by simp
  have e3: "perform_resume_analysis example_env ''text of RESUME.PDF'' 2
              = (Inr (Some ''analysis of text of RESUME.PDF''), 4)"
    using example_env_analysis [of 2] by simp
  have e4: "calculate_resume_jd_similarity example_env ''text of RESUME.PDF''
              ''text of jd.pdf'' 4 = (Inr (Some 32), 7)"
    using example_env_similarity [of 4] by simp
  note fifth = ok [THEN conjunct2, THEN conjunct2, THEN conjunct2, THEN conjunct2, rule_format,
                   OF conjI [OF e1 conjI [OF e2 conjI [OF e3 e4]]]]
  from fifth have second: "snd (analyze_resume_and_jd_flask example_env example_files 0) =
     ([ParsePdf [0x25, 0x50, 0x44, 0x46] ''RESUME.PDF'', ParsePdf [0x25, 0x50] ''jd.pdf'',
       Analyze ''text of RESUME.PDF'',
       CompareSimilarity ''text of RESUME.PDF'' ''text of jd.pdf''], 7)"
    by (simp add: secure_RESUME_PDF secure_jd_pdf)
  from first second show ?thesis ..
qed




end
